theory Spec2Isabelle
  imports Main
begin

section \<open>JavaScript values used by the extension\<close>

text \<open>
  Strings are \<^typ>\<open>string\<close> (ASCII), arrays are lists. The helpers below are the
  JavaScript built-ins the modelled functions call: \<open>Array.prototype.indexOf\<close> (which
  answers \<open>-1\<close> for an absent element), \<open>Array.prototype.splice(i, 1)\<close>,
  \<open>String.prototype.trim\<close>, \<open>String.prototype.split\<close> with a one-character separator
  and \<open>String.prototype.startsWith\<close>.
\<close>

fun indexOf :: "'a list \<Rightarrow> 'a \<Rightarrow> int" where
  "indexOf [] x = -1"
| "indexOf (y # ys) x =
     (if y = x then 0 else (let i = indexOf ys x in if i < 0 then -1 else i + 1))"

definition splice1 :: "'a list \<Rightarrow> int \<Rightarrow> 'a list" where
  \<comment> \<open>\<open>xs.splice(i, 1)\<close> for \<open>i \<ge> 0\<close>: the array without the element at index \<open>i\<close>\<close>
  "splice1 xs i = take (nat i) xs @ drop (Suc (nat i)) xs"

definition is_space :: "char \<Rightarrow> bool" where
  "is_space c = (c \<in> set [CHR 0x09, CHR 0x0A, CHR 0x0B, CHR 0x0C, CHR 0x0D, CHR '' ''])"

definition trim :: "string \<Rightarrow> string" where
  "trim s = rev (dropWhile is_space (rev (dropWhile is_space s)))"

fun split_on :: "char \<Rightarrow> string \<Rightarrow> string list" where
  "split_on c [] = [[]]"
| "split_on c (x # xs) =
     (if x = c then [] # split_on c xs
      else (case split_on c xs of [] \<Rightarrow> [[x]] | y # ys \<Rightarrow> (x # y) # ys))"

definition startsWith :: "string \<Rightarrow> string \<Rightarrow> bool" where
  "startsWith s p = (take (length p) s = p)"

text \<open>A settled promise: resolved with a value or rejected with a reason.\<close>

datatype 'a settled = Resolved 'a | Rejected string

section \<open>The formatter (\<open>Formatter.formatDocument\<close>)\<close>

text \<open>
  \<open>formatDocument\<close> reads \<open>go.formatTool\<close> (default \<open>goreturns\<close>) and \<open>go.formatFlags\<close>,
  removes \<open>-w\<close> with \<open>indexOf\<close>/\<open>splice\<close>, appends \<open>-srcdir filename\<close> for goimports and
  goreturns, and runs the tool with the document text on stdin.
\<close>

record formatConfig =
  formatTool :: "string option"
  formatFlags :: "string list"

record TextDocument =
  fileName :: string
  lines :: "string list"

record TextEdit =
  startPos :: "nat \<times> nat"
  endPos :: "nat \<times> nat"
  newText :: string

datatype execError = ENOENT | Failed string

record execResult =
  err :: "execError option"
  stdout :: string
  stderr :: string

record invocation =
  binPath :: string
  argv :: "string list"
  stdin :: string

definition toolOrDefault :: "string option \<Rightarrow> string \<Rightarrow> string" where
  \<comment> \<open>\<open>goConfig[key] || dflt\<close>: undefined and the empty string are falsy\<close>
  "toolOrDefault v dflt = (case v of None \<Rightarrow> dflt | Some s \<Rightarrow> if s = [] then dflt else s)"

definition formatArgs :: "formatConfig \<Rightarrow> string \<Rightarrow> string list" where
  "formatArgs goConfig filename =
     (let tool = toolOrDefault (formatTool goConfig) ''goreturns'';
          flags0 = formatFlags goConfig;
          flags1 = (if indexOf flags0 ''-w'' > -1
                    then splice1 flags0 (indexOf flags0 ''-w'') else flags0);
          flags2 = (if tool = ''goimports'' \<or> tool = ''goreturns''
                    then flags1 @ [''-srcdir'', filename] else flags1)
      in flags2)"

definition getText :: "TextDocument \<Rightarrow> string" where
  "getText document = concat (map (\<lambda>l. l @ [CHR 0x0A]) (butlast (lines document))) @ last (lines document)"

definition wholeDocumentEdit :: "TextDocument \<Rightarrow> string \<Rightarrow> TextEdit" where
  \<comment> \<open>from \<open>Position(0, 0)\<close> to \<open>document.lineAt(document.lineCount - 1).range.end\<close>\<close>
  "wholeDocumentEdit document out =
     \<lparr> startPos = (0, 0),
       endPos = (length (lines document) - 1, length (last (lines document))),
       newText = out \<rparr>"

text \<open>
  One run of \<open>formatDocument\<close>. The external tool is the list of results its successive
  invocations produce (the function retries itself after a goreturns that does not know
  \<open>-srcdir\<close>); the run returns the invocations made, the number of update prompts
  requested and the promise's outcome, \<open>None\<close> while the tool has not answered.
\<close>

fun formatDocument ::
  "(string \<Rightarrow> string) \<Rightarrow> formatConfig \<Rightarrow> TextDocument \<Rightarrow> execResult list
     \<Rightarrow> invocation list \<times> nat \<times> TextEdit list settled option" where
  "formatDocument getBinPath goConfig document [] =
     ([\<lparr> binPath = getBinPath (toolOrDefault (formatTool goConfig) ''goreturns''),
         argv = formatArgs goConfig (fileName document),
         stdin = getText document \<rparr>], 0, None)"
| "formatDocument getBinPath goConfig document (r # rs) =
     (let tool = toolOrDefault (formatTool goConfig) ''goreturns'';
          inv = \<lparr> binPath = getBinPath tool,
                  argv = formatArgs goConfig (fileName document),
                  stdin = getText document \<rparr>
      in case err r of
           Some ENOENT \<Rightarrow> ([inv], 0, Some (Rejected (''Missing tool: '' @ tool)))
         | Some (Failed m) \<Rightarrow>
             if tool = ''goreturns'' \<and> stderr r \<noteq> []
                \<and> startsWith (stderr r) ''flag provided but not defined: -srcdir''
             then (case formatDocument getBinPath goConfig document rs of
                     (invs, prompts, res) \<Rightarrow> (inv # invs, Suc prompts, res))
             else ([inv], 0,
                   Some (Rejected ''Check the console in dev tools to find errors when formatting.''))
         | None \<Rightarrow> ([inv], 0, Some (Resolved [wholeDocumentEdit document (stdout r)])))"

section \<open>Tool prompts (\<open>promptForUpdatingTool\<close>)\<close>

text \<open>
  A tool as \<open>goTools\<close> describes it. The module keeps \<open>declinedUpdates\<close>, an array of
  tools that lives as long as the process; the session also records what the user saw:
  the update prompts shown and the \<open>installTools\<close> calls made.
\<close>

record Tool =
  name :: string
  importPath :: string
  isImportant :: bool

text \<open>
  Modelled from the spec: \<open>containsTool\<close> is defined in \<open>goTools\<close>, which is not among the
  sources. The spec calls the declined lists unordered sets of tool descriptors that
  prevent repeat prompts for the same tool, so \<open>containsTool\<close> is membership. \<open>getTool\<close>,
  of the same module, is a parameter of the functions below: the tool of a name, or
  \<open>None\<close> for \<open>undefined\<close>.
\<close>

definition containsTool :: "Tool list \<Rightarrow> Tool \<Rightarrow> bool" where
  "containsTool tools tool = (tool \<in> set tools)"

record toolSession =
  declinedUpdates :: "Tool list"
  updatePrompts :: "Tool list"
  installCalls :: "Tool list list"

definition freshSession :: toolSession where
  "freshSession = \<lparr> declinedUpdates = [], updatePrompts = [], installCalls = [] \<rparr>"

text \<open>
  The synchronous part of \<open>promptForUpdatingTool\<close> and the callback of \<open>getGoVersion\<close>:
  nothing happens for a declined tool; otherwise, once the Go version has resolved, the
  prompt with the single option \<open>Update\<close> is shown. For an unknown name \<open>tool\<close> is
  \<open>undefined\<close> and the callback throws at \<open>tool.name\<close> before it shows anything.
\<close>

definition promptForUpdatingTool ::
  "(string \<Rightarrow> Tool option) \<Rightarrow> bool \<Rightarrow> string \<Rightarrow> toolSession \<Rightarrow> toolSession" where
  "promptForUpdatingTool getTool goVersionResolves toolName s =
     (case getTool toolName of
        None \<Rightarrow> s
      | Some tool \<Rightarrow>
          if containsTool (declinedUpdates s) tool then s
          else if goVersionResolves then s\<lparr>updatePrompts := updatePrompts s @ [tool]\<rparr>
          else s)"

text \<open>
  The callback of the prompt. Its \<open>switch\<close> has no \<open>break\<close>: \<open>case 'Update'\<close> calls
  \<open>installTools\<close> and falls through to \<open>default\<close>, which pushes the tool on
  \<open>declinedUpdates\<close>. A dismissed prompt answers \<open>undefined\<close>, here \<open>None\<close>.
\<close>

definition updateSelected :: "Tool \<Rightarrow> string option \<Rightarrow> toolSession \<Rightarrow> toolSession" where
  "updateSelected tool selected s =
     (let s1 = (if selected = Some ''Update''
                then s\<lparr>installCalls := installCalls s @ [[tool]]\<rparr> else s)
      in s1\<lparr>declinedUpdates := declinedUpdates s1 @ [tool]\<rparr>)"

text \<open>
  What can happen to the session afterwards: further calls of \<open>promptForUpdatingTool\<close>
  and answers to prompts, in any order.
\<close>

datatype toolEvent = PromptForUpdating string bool | Selected Tool "string option"

fun toolStep :: "(string \<Rightarrow> Tool option) \<Rightarrow> toolEvent \<Rightarrow> toolSession \<Rightarrow> toolSession" where
  "toolStep getTool (PromptForUpdating toolName ok) s = promptForUpdatingTool getTool ok toolName s"
| "toolStep getTool (Selected tool selected) s = updateSelected tool selected s"

fun toolRun :: "(string \<Rightarrow> Tool option) \<Rightarrow> toolEvent list \<Rightarrow> toolSession \<Rightarrow> toolSession" where
  "toolRun getTool [] s = s"
| "toolRun getTool (e # es) s = toolRun getTool es (toolStep getTool e s)"

text \<open>
  A call whose prompt, if one is shown, is answered before the next call is made, and a
  session of such calls.
\<close>

definition promptAndAnswer ::
  "(string \<Rightarrow> Tool option) \<Rightarrow> string \<times> bool \<times> string option \<Rightarrow> toolSession \<Rightarrow> toolSession" where
  "promptAndAnswer getTool call s =
     (case call of (toolName, ok, selected) \<Rightarrow>
        (let s1 = promptForUpdatingTool getTool ok toolName s
         in if length (updatePrompts s1) = length (updatePrompts s) then s1
            else updateSelected (last (updatePrompts s1)) selected s1))"

fun sessionSeq ::
  "(string \<Rightarrow> Tool option) \<Rightarrow> (string \<times> bool \<times> string option) list \<Rightarrow> toolSession
     \<Rightarrow> toolSession" where
  "sessionSeq getTool [] s = s"
| "sessionSeq getTool (c # cs) s = sessionSeq getTool cs (promptAndAnswer getTool c s)"

definition promptedOnce :: "toolSession \<Rightarrow> bool" where
  "promptedOnce s =
     (\<forall>t. count_list (updatePrompts s) t \<le> (if t \<in> set (declinedUpdates s) then 1 else 0))"

definition goplsTool :: Tool where
  "goplsTool = \<lparr> name = ''gopls'', importPath = ''golang.org/x/tools/gopls'', isImportant = False \<rparr>"

definition knownTools :: "string \<Rightarrow> Tool option" where
  "knownTools n = (if n = ''gopls'' then Some goplsTool else None)"

section \<open>The \<open>semver\<close> package, as far as the version gate calls it\<close>

text \<open>
  \<open>semver\<close> is a dependency, not code of the extension. The version gate calls
  \<open>semver.coerce\<close>, \<open>semver.rcompare\<close> (as the comparator of \<open>Array.prototype.sort\<close>) and
  \<open>semver.lt\<close>. A
  version has three numeric components and a list of prerelease identifiers; build
  metadata is read and dropped.
\<close>

datatype prerelease_part = Num int | Alnum string

record SemVer =
  major :: int
  minor :: int
  patch :: int
  prerelease :: "prerelease_part list"

definition is_digit :: "char \<Rightarrow> bool" where
  "is_digit c = (c \<in> set ''0123456789'')"

definition digit_value :: "char \<Rightarrow> int" where
  "digit_value c = of_char c - 48"

definition int_of_digits :: "string \<Rightarrow> int" where
  "int_of_digits s = foldl (\<lambda>n c. 10 * n + digit_value c) 0 s"

definition MAX_SAFE_INTEGER :: int where
  "MAX_SAFE_INTEGER = 9007199254740991"

definition all_digits :: "string \<Rightarrow> bool" where
  \<comment> \<open>\<open>/^[0-9]+$/\<close>\<close>
  "all_digits s = (s \<noteq> [] \<and> list_all is_digit s)"

definition numeric_id :: "string \<Rightarrow> bool" where
  \<comment> \<open>\<open>0|[1-9]\d*\<close>\<close>
  "numeric_id s = (all_digits s \<and> (hd s \<noteq> CHR ''0'' \<or> length s = 1))"

definition is_idchar :: "char \<Rightarrow> bool" where
  \<comment> \<open>\<open>[0-9A-Za-z-]\<close>\<close>
  "is_idchar c =
     (c \<in> set ''0123456789abcdefghijklmnopqrstuvwxyzABCDEFGHIJKLMNOPQRSTUVWXYZ-'')"

definition prerelease_id :: "string \<Rightarrow> bool" where
  \<comment> \<open>\<open>0|[1-9]\d*|\d*[a-zA-Z-][a-zA-Z0-9-]*\<close>\<close>
  "prerelease_id s = (numeric_id s \<or> (list_all is_idchar s \<and> \<not> list_all is_digit s))"

definition build_id :: "string \<Rightarrow> bool" where
  \<comment> \<open>\<open>[0-9A-Za-z-]+\<close>\<close>
  "build_id s = (s \<noteq> [] \<and> list_all is_idchar s)"

definition read_identifier :: "string \<Rightarrow> prerelease_part" where
  \<comment> \<open>a numeric identifier below \<open>MAX_SAFE_INTEGER\<close> is stored as a number\<close>
  "read_identifier s =
     (if all_digits s \<and> int_of_digits s < MAX_SAFE_INTEGER
      then Num (int_of_digits s) else Alnum s)"

definition semver_of_components ::
  "string \<Rightarrow> string \<Rightarrow> string \<Rightarrow> prerelease_part list \<Rightarrow> SemVer option" where
  \<comment> \<open>the three components must be numeric and at most \<open>MAX_SAFE_INTEGER\<close>\<close>
  "semver_of_components ma mi pa pre =
     (if numeric_id ma \<and> numeric_id mi \<and> numeric_id pa
         \<and> int_of_digits ma \<le> MAX_SAFE_INTEGER
         \<and> int_of_digits mi \<le> MAX_SAFE_INTEGER
         \<and> int_of_digits pa \<le> MAX_SAFE_INTEGER
      then Some \<lparr> major = int_of_digits ma, minor = int_of_digits mi,
                  patch = int_of_digits pa, prerelease = pre \<rparr>
      else None)"

definition cut_at :: "char \<Rightarrow> string \<Rightarrow> string \<times> string option" where
  \<comment> \<open>the text before the first \<open>c\<close> and, when there is one, the text after it\<close>
  "cut_at c s =
     (takeWhile (\<lambda>x. x \<noteq> c) s,
      case dropWhile (\<lambda>x. x \<noteq> c) s of [] \<Rightarrow> None | _ # r \<Rightarrow> Some r)"

definition semver_parse :: "string \<Rightarrow> SemVer option" where
  \<comment> \<open>\<open>new SemVer(version)\<close>, strict: \<open>None\<close> where the constructor throws\<close>
  "semver_parse version =
     (if length version > 256 then None
      else
        let s = trim version;
            s1 = (case s of c # r \<Rightarrow> if c = CHR ''v'' then r else s | [] \<Rightarrow> s);
            (body, build) = cut_at (CHR ''+'') s1;
            (core, pre) = cut_at (CHR ''-'') body;
            build_ok = (case build of None \<Rightarrow> True
                        | Some b \<Rightarrow> list_all build_id (split_on (CHR ''.'') b));
            pre_ok = (case pre of None \<Rightarrow> True
                      | Some p \<Rightarrow> list_all prerelease_id (split_on (CHR ''.'') p));
            ids = (case pre of None \<Rightarrow> []
                   | Some p \<Rightarrow> map read_identifier (split_on (CHR ''.'') p))
        in if build_ok \<and> pre_ok
           then (case split_on (CHR ''.'') core of
                   [ma, mi, pa] \<Rightarrow> semver_of_components ma mi pa ids
                 | _ \<Rightarrow> None)
           else None)"

text \<open>
  \<open>semver.coerce\<close> searches the first match of
  \<open>(?:^|[^\d])(\d{1,16})(?:\.(\d{1,16}))?(?:\.(\d{1,16}))?(?:$|[^\d])\<close>: the first maximal
  run of at most 16 digits, then up to two more such runs, each after a dot; missing
  components are \<open>0\<close>, and the three are parsed as a version.
\<close>

fun first_run :: "string \<Rightarrow> string \<Rightarrow> (string \<times> string) option" where
  "first_run acc [] = (if acc \<noteq> [] \<and> length acc \<le> 16 then Some (acc, []) else None)"
| "first_run acc (c # cs) =
     (if is_digit c then first_run (acc @ [c]) cs
      else if acc \<noteq> [] \<and> length acc \<le> 16 then Some (acc, c # cs)
      else first_run [] cs)"

definition dot_component :: "string \<Rightarrow> string option \<times> string" where
  "dot_component s =
     (case s of
        [] \<Rightarrow> (None, s)
      | c # r \<Rightarrow>
          if c = CHR ''.'' \<and> 1 \<le> length (takeWhile is_digit r)
             \<and> length (takeWhile is_digit r) \<le> 16
          then (Some (takeWhile is_digit r), dropWhile is_digit r)
          else (None, s))"

definition or_zero :: "string option \<Rightarrow> string" where
  "or_zero m = (case m of None \<Rightarrow> ''0'' | Some d \<Rightarrow> d)"

definition semver_coerce :: "string \<Rightarrow> SemVer option" where
  "semver_coerce version =
     (case first_run [] version of
        None \<Rightarrow> None
      | Some (ma, rest) \<Rightarrow>
          (let (mi, rest1) = dot_component rest;
               (pa, rest2) = (case mi of None \<Rightarrow> (None, rest1) | Some _ \<Rightarrow> dot_component rest1)
           in semver_of_components ma (or_zero mi) (or_zero pa) []))"

text \<open>
  Comparison. \<open>compareIdentifiers\<close> orders numbers before other identifiers, numbers by
  value (here exactly, where JavaScript rounds numbers beyond \<open>MAX_SAFE_INTEGER\<close>) and the
  others as strings, by character code; \<open>SemVer.compare\<close> compares the three components
  and then the prerelease lists, where a version with a prerelease is below the same
  version without one.
\<close>

fun string_less :: "string \<Rightarrow> string \<Rightarrow> bool" where
  "string_less [] [] = False"
| "string_less [] (y # ys) = True"
| "string_less (x # xs) [] = False"
| "string_less (x # xs) (y # ys) =
     ((of_char x :: nat) < of_char y \<or> (x = y \<and> string_less xs ys))"

definition compare_num :: "int \<Rightarrow> int \<Rightarrow> int" where
  "compare_num a b = (if a = b then 0 else if a < b then -1 else 1)"

fun compareIdentifiers :: "prerelease_part \<Rightarrow> prerelease_part \<Rightarrow> int" where
  "compareIdentifiers (Num a) (Num b) = compare_num a b"
| "compareIdentifiers (Num a) (Alnum b) =
     (if all_digits b then compare_num a (int_of_digits b) else -1)"
| "compareIdentifiers (Alnum a) (Num b) =
     (if all_digits a then compare_num (int_of_digits a) b else 1)"
| "compareIdentifiers (Alnum a) (Alnum b) =
     (if all_digits a \<and> all_digits b
      then compare_num (int_of_digits a) (int_of_digits b)
      else if a = b then 0
      else if all_digits a then -1
      else if all_digits b then 1
      else if string_less a b then -1 else 1)"

fun comparePreLoop :: "prerelease_part list \<Rightarrow> prerelease_part list \<Rightarrow> int" where
  "comparePreLoop [] [] = 0"
| "comparePreLoop [] (b # bs) = -1"
| "comparePreLoop (a # as) [] = 1"
| "comparePreLoop (a # as) (b # bs) =
     (if compareIdentifiers a b = 0 then comparePreLoop as bs else compareIdentifiers a b)"

definition comparePre :: "SemVer \<Rightarrow> SemVer \<Rightarrow> int" where
  "comparePre a b =
     (if prerelease a \<noteq> [] \<and> prerelease b = [] then -1
      else if prerelease a = [] \<and> prerelease b \<noteq> [] then 1
      else if prerelease a = [] \<and> prerelease b = [] then 0
      else comparePreLoop (prerelease a) (prerelease b))"

definition compareMain :: "SemVer \<Rightarrow> SemVer \<Rightarrow> int" where
  "compareMain a b =
     (if compare_num (major a) (major b) \<noteq> 0 then compare_num (major a) (major b)
      else if compare_num (minor a) (minor b) \<noteq> 0 then compare_num (minor a) (minor b)
      else compare_num (patch a) (patch b))"

definition semver_compare :: "SemVer \<Rightarrow> SemVer \<Rightarrow> int" where
  "semver_compare a b = (if compareMain a b \<noteq> 0 then compareMain a b else comparePre a b)"

definition rcompare :: "SemVer \<Rightarrow> SemVer \<Rightarrow> int" where
  "rcompare a b = semver_compare b a"

text \<open>
  \<open>Array.prototype.sort\<close> with a comparator, as an insertion sort: the comparator is a
  total preorder on the values sorted here, so every sorting algorithm gives this list.
\<close>

fun insert_by :: "('a \<Rightarrow> 'a \<Rightarrow> int) \<Rightarrow> 'a \<Rightarrow> 'a list \<Rightarrow> 'a list" where
  "insert_by cmp x [] = [x]"
| "insert_by cmp x (y # ys) = (if cmp x y \<le> 0 then x # y # ys else y # insert_by cmp x ys)"

definition sort_by :: "('a \<Rightarrow> 'a \<Rightarrow> int) \<Rightarrow> 'a list \<Rightarrow> 'a list" where
  "sort_by cmp xs = foldr (insert_by cmp) xs []"

text \<open>The head of a list is a latest version of it.\<close>

definition head_is_latest :: "SemVer list \<Rightarrow> bool" where
  "head_is_latest ys = (case ys of [] \<Rightarrow> True | m # _ \<Rightarrow> list_all (\<lambda>v. semver_compare v m \<le> 0) ys)"

section \<open>The version gate (\<open>goplsVersion\<close>, \<open>shouldUpdateLanguageServer\<close>)\<close>

datatype jsError = TypeError string | RequestError string

text \<open>
  \<open>goplsVersion\<close> runs \<open>gopls version\<close>; its argument here is the standard output of
  that run, \<open>None\<close> when \<open>execFile\<close> rejects. The result is \<open>None\<close> for \<open>null\<close>.
\<close>

definition goplsVersion :: "string option \<Rightarrow> string option" where
  "goplsVersion execStdout =
     (case execStdout of
        None \<Rightarrow> None
      | Some output \<Rightarrow>
          (let lines = split_on (CHR 0x0A) (trim output)
           in if length lines = 0 then None
              else if length lines = 1 then None
              else if length lines = 2 then
                (let moduleVersion =
                       (case split_on (CHR '' '') (trim (lines ! 1)) of [] \<Rightarrow> [] | m # _ \<Rightarrow> m);
                     split = split_on (CHR ''@'') (trim moduleVersion)
                 in if length split < 2 then None else Some (split ! 1))
              else None))"

definition listURL :: "Tool \<Rightarrow> string" where
  "listURL tool = ''https://proxy.golang.org/'' @ importPath tool @ ''/@v/list''"

text \<open>
  The comparator throws \<open>TypeError\<close> on \<open>null\<close>, the result of \<open>coerce\<close> for an entry
  without a version; \<open>sort\<close> calls it as soon as the array has two elements.
\<close>

definition sort_versions :: "SemVer option list \<Rightarrow> jsError + SemVer option list" where
  "sort_versions versions =
     (if length versions \<le> 1 then Inr versions
      else if list_ex (\<lambda>v. v = None) versions then Inl (TypeError ''Invalid Version: null'')
      else Inr (map Some (sort_by rcompare (map the versions))))"

definition semver_lt :: "string \<Rightarrow> SemVer option \<Rightarrow> jsError + bool" where
  "semver_lt a b =
     (case semver_parse a of
        None \<Rightarrow> Inl (TypeError (''Invalid Version: '' @ a))
      | Some x \<Rightarrow>
          (case b of
             None \<Rightarrow> Inl (TypeError ''Invalid Version: null'')
           | Some y \<Rightarrow> Inr (semver_compare x y < 0)))"

text \<open>
  \<open>shouldUpdateLanguageServer\<close>. \<open>webRequest\<close> is the registry: the body it answers for
  a URL, or the error of the request. \<open>!usersVersion\<close> holds for \<open>null\<close> and for the
  empty string.
\<close>

definition shouldUpdateLanguageServer ::
  "(string \<Rightarrow> jsError + string) \<Rightarrow> Tool \<Rightarrow> string option \<Rightarrow> jsError + bool" where
  "shouldUpdateLanguageServer webRequest tool execStdout =
     (if name tool \<noteq> ''gopls'' then Inr False
      else
        (case goplsVersion execStdout of
           None \<Rightarrow> Inr True
         | Some usersVersion \<Rightarrow>
             if usersVersion = [] then Inr True
             else if usersVersion = ''(devel)'' then Inr False
             else
               (case webRequest (listURL tool) of
                  Inl e \<Rightarrow> Inl e
                | Inr data \<Rightarrow>
                    (let versions = map semver_coerce (split_on (CHR 0x0A) (trim data))
                     in if length versions = 0 then Inr False
                        else
                          (case sort_versions versions of
                             Inl e \<Rightarrow> Inl e
                           | Inr sortedVersions \<Rightarrow> semver_lt usersVersion (hd sortedVersions))))))"

definition versionOutput :: "string \<Rightarrow> string" where
  \<comment> \<open>the two lines \<open>gopls version\<close> prints for a module build of version \<open>v\<close>\<close>
  "versionOutput v =
     ''golang.org/x/tools/gopls 0.1'' @ [CHR 0x0A] @
     ''    golang.org/x/tools/gopls@'' @ v @ '' h1:CB5ECiPysqZrwxcyRjN+exyZpY0gODTZvNiqQi3lpeo=''"

definition registryList :: string where
  "registryList = ''v0.1.3'' @ [CHR 0x0A] @ ''v0.1.1'' @ [CHR 0x0A] @ ''v0.0.9'' @ [CHR 0x0A]"

section \<open>Checks on save (\<open>check\<close>)\<close>

record ICheckResult =
  file' :: string
  line :: nat
  msg :: string
  severity :: string


definition truthy :: "string option \<Rightarrow> bool" where
  \<comment> \<open>\<open>!!v\<close> for a setting that is a string or undefined\<close>
  "truthy v = (case v of None \<Rightarrow> False | Some s \<Rightarrow> s \<noteq> [])"








definition lintWarning :: ICheckResult where
  "lintWarning = \<lparr> file' = ''/src/a.go'', line = 3, msg = ''exported func F should have comment'',
                   severity = ''warning'' \<rparr>"








section \<open>Linting (\<open>goLint\<close>)\<close>

record lintConfig =
  lintTool :: "string option"
  lintFlags :: "string list"
  toolsGopath :: "string option"

text \<open>
  What \<open>goLint\<close> reads from its surroundings: \<open>resolvePath\<close>, the workspace folder of the
  file (\<open>getWorkspaceFolderPath\<close>), the directory of the file, the \<open>GOPATH\<close> of
  \<open>getToolsEnvVars\<close> and \<open>path.delimiter\<close>.
\<close>

record lintHost =
  resolvePath :: "string \<Rightarrow> string"
  currentWorkspace :: "string option"
  fileDir :: string
  envGopath :: string
  pathDelimiter :: string

definition lintArgs :: "lintHost \<Rightarrow> lintConfig \<Rightarrow> bool \<Rightarrow> string list" where
  "lintArgs host goConfig lintWorkspace =
     (let args0 = concat (map (\<lambda>flag.
                     if flag = ''--json'' then []
                     else if startsWith flag ''--config=''
                     then [''--config='' @ resolvePath host (drop (length ''--config='') flag)]
                     else [flag]) (lintFlags goConfig));
          args1 = (if toolOrDefault (lintTool goConfig) ''golint'' = ''gometalinter''
                      \<and> indexOf args0 ''--aggregate'' = -1
                   then args0 @ [''--aggregate''] else args0);
          args2 = (if lintWorkspace \<and> truthy (currentWorkspace host)
                   then args1 @ [''./...''] else args1)
      in args2)"

definition lintGopath :: "lintHost \<Rightarrow> lintConfig \<Rightarrow> string" where
  "lintGopath host goConfig =
     (if toolOrDefault (lintTool goConfig) ''golint'' = ''gometalinter'' \<and> truthy (toolsGopath goConfig)
      then envGopath host @ pathDelimiter host @ the (toolsGopath goConfig)
      else envGopath host)"

text \<open>
  A call of \<open>runTool\<close>: the tool, its arguments, directory and \<open>GOPATH\<close>, and whether the
  token it was given had already been cancelled.
\<close>

record lintRun =
  runTool :: string
  runArgs :: "string list"
  runCwd :: string
  runGopath :: string
  runTokenCancelled :: bool

datatype lintCall = CancelToken | RunTool lintRun

text \<open>
  The module's state: the flag \<open>running\<close> and the one \<open>tokenSource\<close> (created when the
  module is loaded; \<open>tokenCancelled\<close> says whether \<open>cancel()\<close> has been called on it),
  the calls of \<open>tokenSource.cancel\<close> and \<open>runTool\<close> made so far, in order, and the values
  that the promises returned by \<open>goLint\<close> have resolved with, each with the index of its
  request.
\<close>

record 'r lintModule =
  running :: bool
  tokenCancelled :: bool
  calls :: "lintCall list"
  delivered :: "(nat \<times> 'r) list"

definition lintModuleInit :: "'r lintModule" where
  "lintModuleInit = \<lparr> running = False, tokenCancelled = False, calls = [], delivered = [] \<rparr>"

definition lintRunOf :: "lintHost \<Rightarrow> lintConfig \<Rightarrow> bool \<Rightarrow> bool \<Rightarrow> lintRun" where
  "lintRunOf host goConfig lintWorkspace cancelled =
     \<lparr> runTool = toolOrDefault (lintTool goConfig) ''golint'',
       runArgs = lintArgs host goConfig lintWorkspace,
       runCwd = (if lintWorkspace \<and> truthy (currentWorkspace host)
                 then the (currentWorkspace host) else fileDir host),
       runGopath = lintGopath host goConfig,
       runTokenCancelled = cancelled \<rparr>"

text \<open>
  The synchronous part of \<open>goLint\<close>: cancel the token source when a lint is running, set
  \<open>running\<close>, call \<open>runTool\<close> with the token.
\<close>

definition goLint :: "lintHost \<Rightarrow> lintConfig \<Rightarrow> bool \<Rightarrow> 'r lintModule \<Rightarrow> 'r lintModule" where
  "goLint host goConfig lintWorkspace m =
     (let m1 = (if running m
                then m\<lparr>tokenCancelled := True, calls := calls m @ [CancelToken]\<rparr> else m);
          m2 = m1\<lparr>running := True\<rparr>
      in m2\<lparr>calls := calls m2 @ [RunTool (lintRunOf host goConfig lintWorkspace (tokenCancelled m2))]\<rparr>)"

text \<open>
  The callback \<open>.then((result) => { running = false; return result; })\<close> of request \<open>i\<close>,
  run when its \<open>runTool\<close> promise resolves with \<open>result\<close>: the promise that \<open>goLint\<close>
  returned resolves with the same value.
\<close>

definition lintResolved :: "nat \<Rightarrow> 'r \<Rightarrow> 'r lintModule \<Rightarrow> 'r lintModule" where
  "lintResolved i result m = m\<lparr>running := False, delivered := delivered m @ [(i, result)]\<rparr>"

definition golintHost :: lintHost where
  "golintHost = \<lparr> resolvePath = (\<lambda>p. p), currentWorkspace = Some ''/src'', fileDir = ''/src/pkg'',
                  envGopath = ''/go'', pathDelimiter = '':'' \<rparr>"

definition golintConfig :: lintConfig where
  "golintConfig = \<lparr> lintTool = None, lintFlags = [], toolsGopath = None \<rparr>"

section \<open>Language features (\<open>registerLanguageFeatures\<close>)\<close>

text \<open>
  The thirteen features of \<open>LanguageServerConfig.features\<close>, the toggles themselves, and
  the fields of the server's capabilities that the extension reads (each as the truth
  value JavaScript gives it), together with \<open>documentLinkProvider\<close>, which the protocol
  defines and the extension never reads. The protocol has no capability for diagnostics:
  the server publishes them.
\<close>

datatype feature =
    Completion | Diagnostics | Format | Definition | TypeDefinition | Hover | References
  | Rename | SignatureHelp | DocumentSymbols | WorkspaceSymbols | Implementation | DocumentLink

record features =
  completion :: bool
  diagnostics :: bool
  format :: bool
  definition' :: bool
  typeDefinition :: bool
  hover :: bool
  references :: bool
  rename :: bool
  signatureHelp :: bool
  documentSymbols :: bool
  workspaceSymbols :: bool
  implementation :: bool
  documentLink :: bool

record LanguageServerConfig =
  enabled :: bool
  flags :: "string list"
  features :: features

record ServerCapabilities =
  completionProvider :: bool
  documentFormattingProvider :: bool
  renameProvider :: bool
  typeDefinitionProvider :: bool
  hoverProvider :: bool
  definitionProvider :: bool
  referencesProvider :: bool
  documentSymbolProvider :: bool
  signatureHelpProvider :: bool
  workspaceSymbolProvider :: bool
  implementationProvider :: bool
  documentLinkProvider :: bool

fun toggle :: "features \<Rightarrow> feature \<Rightarrow> bool" where
  "toggle fs Completion = completion fs"
| "toggle fs Diagnostics = diagnostics fs"
| "toggle fs Format = format fs"
| "toggle fs Definition = definition' fs"
| "toggle fs TypeDefinition = typeDefinition fs"
| "toggle fs Hover = hover fs"
| "toggle fs References = references fs"
| "toggle fs Rename = rename fs"
| "toggle fs SignatureHelp = signatureHelp fs"
| "toggle fs DocumentSymbols = documentSymbols fs"
| "toggle fs WorkspaceSymbols = workspaceSymbols fs"
| "toggle fs Implementation = implementation fs"
| "toggle fs DocumentLink = documentLink fs"

fun advertises :: "ServerCapabilities \<Rightarrow> feature \<Rightarrow> bool" where
  "advertises caps Completion = completionProvider caps"
| "advertises caps Diagnostics = False"
| "advertises caps Format = documentFormattingProvider caps"
| "advertises caps Definition = definitionProvider caps"
| "advertises caps TypeDefinition = typeDefinitionProvider caps"
| "advertises caps Hover = hoverProvider caps"
| "advertises caps References = referencesProvider caps"
| "advertises caps Rename = renameProvider caps"
| "advertises caps SignatureHelp = signatureHelpProvider caps"
| "advertises caps DocumentSymbols = documentSymbolProvider caps"
| "advertises caps WorkspaceSymbols = workspaceSymbolProvider caps"
| "advertises caps Implementation = implementationProvider caps"
| "advertises caps DocumentLink = documentLinkProvider caps"

subsection \<open>The middleware\<close>

text \<open>
  Each middleware function tests its toggle: when it is off it answers \<open>[]\<close> or \<open>null\<close>
  itself, otherwise it calls \<open>next\<close>, which forwards the request to the server.
\<close>

datatype 'r reply = EmptyList | Null | Forwarded 'r

fun middleware :: "features \<Rightarrow> feature \<Rightarrow> 'r \<Rightarrow> 'r reply" where
  "middleware fs Format next = (if \<not> format fs then EmptyList else Forwarded next)"
| "middleware fs Completion next = (if \<not> completion fs then EmptyList else Forwarded next)"
| "middleware fs Rename next = (if \<not> rename fs then Null else Forwarded next)"
| "middleware fs Definition next = (if \<not> definition' fs then Null else Forwarded next)"
| "middleware fs TypeDefinition next = (if \<not> typeDefinition fs then Null else Forwarded next)"
| "middleware fs Hover next = (if \<not> hover fs then Null else Forwarded next)"
| "middleware fs References next = (if \<not> references fs then EmptyList else Forwarded next)"
| "middleware fs SignatureHelp next = (if \<not> signatureHelp fs then Null else Forwarded next)"
| "middleware fs DocumentSymbols next = (if \<not> documentSymbols fs then EmptyList else Forwarded next)"
| "middleware fs WorkspaceSymbols next = (if \<not> workspaceSymbols fs then EmptyList else Forwarded next)"
| "middleware fs Implementation next = (if \<not> implementation fs then Null else Forwarded next)"
| "middleware fs Diagnostics next = (if \<not> diagnostics fs then Null else Forwarded next)"
| "middleware fs DocumentLink next = (if \<not> documentLink fs then Null else Forwarded next)"

fun noop :: "feature \<Rightarrow> 'r reply" where
  "noop Format = EmptyList"
| "noop Completion = EmptyList"
| "noop References = EmptyList"
| "noop DocumentSymbols = EmptyList"
| "noop WorkspaceSymbols = EmptyList"
| "noop f = Null"

subsection \<open>The extension context and the client\<close>

text \<open>
  What the extension pushes on \<open>ctx.subscriptions\<close>: the configuration watcher, the
  completion provider object, the handle of a fallback provider registered with
  \<open>vscode.languages\<close> for a feature, the disposable that \<open>c.start()\<close> returns (numbered by
  the call that returned it), the restart command and the \<open>parseLiveFile\<close> listener. The
  state also holds the error messages shown, the calls of \<open>promptForUpdatingTool\<close>, the
  numbers of \<open>c.start()\<close> and \<open>c.stop()\<close> calls, the variable \<open>languageServerDisposable\<close>
  and the disposables that have been disposed.
\<close>

datatype subscription =
    ConfigurationWatcher | CompletionProviderObject | FallbackProvider feature
  | LanguageServer nat | RestartCommand | LiveDiagnostics

record editor =
  subscriptions :: "subscription list"
  errorMessages :: "string list"
  updateRequests :: "string list"
  clientStarts :: nat
  clientStops :: nat
  languageServerDisposable :: "nat option"
  disposed :: "nat list"

definition emptyEditor :: editor where
  "emptyEditor = \<lparr> subscriptions = [], errorMessages = [], updateRequests = [],
                   clientStarts = 0, clientStops = 0, languageServerDisposable = None,
                   disposed = [] \<rparr>"

definition push :: "subscription \<Rightarrow> editor \<Rightarrow> editor" where
  "push d ed = ed\<lparr>subscriptions := subscriptions ed @ [d]\<rparr>"

definition registerFallback :: "feature \<Rightarrow> editor \<Rightarrow> editor" where
  \<comment> \<open>for completion the provider object is pushed before its registration\<close>
  "registerFallback f ed =
     (if f = Completion then push (FallbackProvider f) (push CompletionProviderObject ed)
      else push (FallbackProvider f) ed)"

definition fallbackHandles :: "editor \<Rightarrow> feature \<Rightarrow> nat" where
  "fallbackHandles ed f = count_list (subscriptions ed) (FallbackProvider f)"

subsection \<open>The handler of \<open>onReady\<close>\<close>

definition fallbackIf :: "bool \<Rightarrow> feature \<Rightarrow> editor \<Rightarrow> editor" where
  "fallbackIf c f ed = (if c then registerFallback f ed else ed)"

definition onReady :: "features \<Rightarrow> ServerCapabilities option \<Rightarrow> editor \<Rightarrow> editor" where
  "onReady fs capabilities ed =
     (case capabilities of
        None \<Rightarrow>
          ed\<lparr>errorMessages := errorMessages ed @
                [''The language server is not able to serve any features at the moment.'']\<rparr>
      | Some caps \<Rightarrow>
          (fallbackIf (\<not> implementation fs \<or> \<not> implementationProvider caps) Implementation
           (fallbackIf (\<not> workspaceSymbols fs \<or> \<not> workspaceSymbolProvider caps) WorkspaceSymbols
           (fallbackIf (\<not> signatureHelp fs \<or> \<not> signatureHelpProvider caps) SignatureHelp
           (fallbackIf (\<not> documentSymbols fs \<or> \<not> documentSymbolProvider caps) DocumentSymbols
           (fallbackIf (\<not> references fs \<or> \<not> referencesProvider caps) References
           (fallbackIf (\<not> definition' fs \<or> \<not> definitionProvider caps) Definition
           (fallbackIf (\<not> hover fs \<or> \<not> hoverProvider caps) Hover
           (fallbackIf (\<not> typeDefinition fs \<or> \<not> typeDefinitionProvider caps) TypeDefinition
           (fallbackIf (\<not> rename fs \<or> \<not> renameProvider caps) Rename
           (fallbackIf (\<not> format fs \<or> \<not> documentFormattingProvider caps) Format
           (fallbackIf (\<not> completion fs \<or> \<not> completionProvider caps) Completion
             ed))))))))))))"

subsection \<open>Registration\<close>

definition registerUsualProviders :: "editor \<Rightarrow> editor" where
  "registerUsualProviders ed =
     push LiveDiagnostics
      (registerFallback Rename
      (registerFallback TypeDefinition
      (registerFallback Format
      (registerFallback Implementation
      (registerFallback SignatureHelp
      (registerFallback WorkspaceSymbols
      (registerFallback DocumentSymbols
      (registerFallback References
      (registerFallback Definition
      (registerFallback Hover
      (registerFallback Completion ed)))))))))))"

definition hasFallback :: "feature \<Rightarrow> bool" where
  \<comment> \<open>the features for which the extension has a provider of its own\<close>
  "hasFallback f = (f \<noteq> Diagnostics \<and> f \<noteq> DocumentLink)"

definition clientStart :: "editor \<Rightarrow> editor" where
  \<comment> \<open>\<open>languageServerDisposable = c.start(); ctx.subscriptions.push(languageServerDisposable)\<close>\<close>
  "clientStart ed =
     push (LanguageServer (clientStarts ed))
       (ed\<lparr>languageServerDisposable := Some (clientStarts ed),
           clientStarts := Suc (clientStarts ed)\<rparr>)"

text \<open>
  \<open>registerLanguageFeatures\<close> up to its return. \<open>updateCheck\<close> is what
  \<open>await shouldUpdateLanguageServer(tool, path)\<close> gives: an error rejects the function
  there. The handler of \<open>onReady\<close> runs later, when the client is ready.
\<close>

definition registerLanguageFeatures ::
  "LanguageServerConfig \<Rightarrow> string \<Rightarrow> jsError + bool \<Rightarrow> editor \<Rightarrow> editor" where
  "registerLanguageFeatures config toolName updateCheck ed =
     (let ed1 = push ConfigurationWatcher ed
      in if \<not> enabled config then registerUsualProviders ed1
         else
           (case updateCheck of
              Inl e \<Rightarrow> ed1
            | Inr shouldUpdate \<Rightarrow>
                (let ed2 = (if shouldUpdate
                            then ed1\<lparr>updateRequests := updateRequests ed1 @ [toolName]\<rparr> else ed1);
                     ed3 = push RestartCommand (clientStart ed2)
                 in if \<not> (toolName = ''gopls'' \<and> diagnostics (features config))
                    then push LiveDiagnostics ed3 else ed3)))"

subsection \<open>The restart command\<close>

text \<open>
  The handler of \<open>go.languageserver.restart\<close> is an async function: it calls \<open>c.stop()\<close>
  and suspends at the \<open>await\<close> (\<open>restartBegin\<close>); when the promise of \<open>stop\<close> resolves it
  disposes \<open>languageServerDisposable\<close>, starts the client and pushes the new disposable
  (\<open>restartResume\<close>). Invocations share the client and the variable.
\<close>

definition restartBegin :: "editor \<Rightarrow> editor" where
  "restartBegin ed = ed\<lparr>clientStops := Suc (clientStops ed)\<rparr>"

definition disposeServer :: "editor \<Rightarrow> editor" where
  "disposeServer ed =
     (case languageServerDisposable ed of
        None \<Rightarrow> ed
      | Some h \<Rightarrow> ed\<lparr>disposed := disposed ed @ [h]\<rparr>)"

definition restartResume :: "editor \<Rightarrow> editor" where
  "restartResume ed = clientStart (disposeServer ed)"

datatype restartStep = Begin | Resume

fun restartRun :: "restartStep list \<Rightarrow> editor \<Rightarrow> editor" where
  "restartRun [] ed = ed"
| "restartRun (Begin # steps) ed = restartRun steps (restartBegin ed)"
| "restartRun (Resume # steps) ed = restartRun steps (restartResume ed)"

definition liveHandles :: "editor \<Rightarrow> nat list" where
  \<comment> \<open>the disposables returned by \<open>c.start()\<close> that have not been disposed\<close>
  "liveHandles ed = filter (\<lambda>h. h \<notin> set (disposed ed)) [0..<clientStarts ed]"

definition allFeatures :: features where
  "allFeatures = \<lparr> completion = True, diagnostics = True, format = True, definition' = True,
                   typeDefinition = True, hover = True, references = True, rename = True,
                   signatureHelp = True, documentSymbols = True, workspaceSymbols = True,
                   implementation = True, documentLink = True \<rparr>"

definition noFeatures :: features where
  "noFeatures = \<lparr> completion = False, diagnostics = False, format = False, definition' = False,
                  typeDefinition = False, hover = False, references = False, rename = False,
                  signatureHelp = False, documentSymbols = False, workspaceSymbols = False,
                  implementation = False, documentLink = False \<rparr>"

definition emptyCapabilities :: ServerCapabilities where
  "emptyCapabilities =
     \<lparr> completionProvider = False, documentFormattingProvider = False, renameProvider = False,
       typeDefinitionProvider = False, hoverProvider = False, definitionProvider = False,
       referencesProvider = False, documentSymbolProvider = False,
       signatureHelpProvider = False, workspaceSymbolProvider = False,
       implementationProvider = False, documentLinkProvider = False \<rparr>"

definition fullCapabilities :: ServerCapabilities where
  "fullCapabilities =
     \<lparr> completionProvider = True, documentFormattingProvider = True, renameProvider = True,
       typeDefinitionProvider = True, hoverProvider = True, definitionProvider = True,
       referencesProvider = True, documentSymbolProvider = True,
       signatureHelpProvider = True, workspaceSymbolProvider = True,
       implementationProvider = True, documentLinkProvider = True \<rparr>"

definition goplsConfig :: LanguageServerConfig where
  "goplsConfig = \<lparr> enabled = True, flags = [], features = allFeatures \<rparr>"

section \<open>Properties of the formatter\<close>

lemma indexOf_absent: "x \<notin> set xs \<Longrightarrow> indexOf xs x = -1"
  by (induction xs) auto

lemma indexOf_ge: "- 1 \<le> indexOf xs x"
  by (induction xs) (auto simp: Let_def)

text \<open>
  C10. The flags \<open>[-w, -w]\<close> are a well-formed \<open>go.formatFlags\<close> setting; \<open>formatDocument\<close>
  removes only the first \<open>-w\<close> (one \<open>splice\<close> at the first \<open>indexOf\<close>) and hands the
  second one to the formatter, here \<open>gofmt\<close>, although its comment says that the flag is
  ignored.
\<close>

theorem formatDocument_passes_w:
  "fst (formatDocument (\<lambda>t. t) \<lparr> formatTool = Some ''gofmt'', formatFlags = [''-w'', ''-w''] \<rparr>
          \<lparr> fileName = ''/src/a.go'', lines = [''package a''] \<rparr>
          [\<lparr> err = None, stdout = [], stderr = [] \<rparr>])
     = [\<lparr> binPath = ''gofmt'', argv = [''-w''], stdin = ''package a'' \<rparr>]"
  by (simp add: formatArgs_def toolOrDefault_def splice1_def getText_def)

section \<open>Properties of the update prompt\<close>

lemma updateSelected_declined:
  "set (declinedUpdates (updateSelected tool sel s)) = insert tool (set (declinedUpdates s))"
  by (simp add: updateSelected_def Let_def)

lemma updateSelected_prompts: "updatePrompts (updateSelected tool sel s) = updatePrompts s"
  by (simp add: updateSelected_def Let_def)

lemma prompt_declined: "declinedUpdates (promptForUpdatingTool g ok n s) = declinedUpdates s"
  by (simp add: promptForUpdatingTool_def split: option.splits)

lemma toolStep_declined:
  "tool \<in> set (declinedUpdates s) \<Longrightarrow> tool \<in> set (declinedUpdates (toolStep g e s))"
  by (cases e) (simp_all add: prompt_declined updateSelected_declined)

lemma toolRun_declined:
  "tool \<in> set (declinedUpdates s) \<Longrightarrow> tool \<in> set (declinedUpdates (toolRun g es s))"
proof (induction es arbitrary: s)
  case Nil
  then show ?case by simp
next
  case (Cons e es)
  show ?case using Cons.IH[OF toolStep_declined[OF Cons.prems, of g e]] by simp
qed

lemma promptAndAnswer_inv:
  assumes "promptedOnce s"
  shows "promptedOnce (promptAndAnswer g (n, ok, sel) s)"
proof (cases "g n")
  case None
  then show ?thesis using assms by (simp add: promptAndAnswer_def promptForUpdatingTool_def)
next
  case (Some tool)
  show ?thesis
  proof (cases "tool \<in> set (declinedUpdates s) \<or> \<not> ok")
    case True
    then have "promptForUpdatingTool g ok n s = s"
      using Some by (auto simp: promptForUpdatingTool_def containsTool_def)
    then show ?thesis using assms by (simp add: promptAndAnswer_def)
  next
    case False
    then have p: "promptForUpdatingTool g ok n s = s\<lparr>updatePrompts := updatePrompts s @ [tool]\<rparr>"
      using Some by (simp add: promptForUpdatingTool_def containsTool_def)
    have "count_list (updatePrompts s) tool
            \<le> (if tool \<in> set (declinedUpdates s) then 1 else 0)"
      using assms unfolding promptedOnce_def by blast
    then have z: "count_list (updatePrompts s) tool = 0"
      using False by simp
    have e: "promptAndAnswer g (n, ok, sel) s
               = updateSelected tool sel (s\<lparr>updatePrompts := updatePrompts s @ [tool]\<rparr>)"
      by (simp add: promptAndAnswer_def p)
    show ?thesis
      unfolding promptedOnce_def e
    proof
      fix t
      show "count_list (updatePrompts (updateSelected tool sel
                (s\<lparr>updatePrompts := updatePrompts s @ [tool]\<rparr>))) t
            \<le> (if t \<in> set (declinedUpdates (updateSelected tool sel
                (s\<lparr>updatePrompts := updatePrompts s @ [tool]\<rparr>))) then 1 else 0)"
      proof (cases "t = tool")
        case True
        then show ?thesis using z by (simp add: updateSelected_prompts updateSelected_declined)
      next
        case False
        have "count_list (updatePrompts s) t \<le> (if t \<in> set (declinedUpdates s) then 1 else 0)"
          using assms unfolding promptedOnce_def by blast
        then show ?thesis
          using False by (simp add: updateSelected_prompts updateSelected_declined)
      qed
    qed
  qed
qed

lemma sessionSeq_inv: "promptedOnce s \<Longrightarrow> promptedOnce (sessionSeq g cs s)"
proof (induction cs arbitrary: s)
  case Nil
  then show ?case by simp
next
  case (Cons c cs)
  obtain n ok sel where c: "c = (n, ok, sel)" by (cases c) auto
  show ?case using Cons.IH[OF promptAndAnswer_inv[OF Cons.prems, of g n ok sel]] c by simp
qed

lemma fresh_inv: "promptedOnce freshSession"
  by (simp add: promptedOnce_def freshSession_def)

text \<open>
  C9, amended. Whatever the user selects in the update prompt of a tool (\<open>Update\<close>, or nothing),
  the tool is on \<open>declinedUpdates\<close> afterwards; from then on, whatever else happens in
  the session, a call of \<open>promptForUpdatingTool\<close> for that tool returns without showing
  a prompt (it leaves the session as it is). In a session that starts with empty lists
  and in which every prompt is answered before the next call, each tool's prompt is
  shown at most once.
\<close>

theorem prompt_shown_once:
  "(getTool toolName = Some tool \<longrightarrow>
      containsTool (declinedUpdates
         (updateSelected tool selected (promptForUpdatingTool getTool ok toolName s))) tool
      \<and> (\<forall>es ok'. promptForUpdatingTool getTool ok' toolName
                  (toolRun getTool es
                     (updateSelected tool selected (promptForUpdatingTool getTool ok toolName s)))
             = toolRun getTool es
                     (updateSelected tool selected (promptForUpdatingTool getTool ok toolName s))))
   \<and> count_list (updatePrompts (sessionSeq getTool answered freshSession)) tool \<le> 1"
proof -
  let ?s1 = "updateSelected tool selected (promptForUpdatingTool getTool ok toolName s)"
  have d: "tool \<in> set (declinedUpdates ?s1)" by (simp add: updateSelected_declined)
  have r: "getTool toolName = Some tool \<Longrightarrow>
           promptForUpdatingTool getTool ok' toolName (toolRun getTool es ?s1)
             = toolRun getTool es ?s1" for es ok'
    using toolRun_declined[OF d, of getTool es]
    by (simp add: promptForUpdatingTool_def containsTool_def)
  have "promptedOnce (sessionSeq getTool answered freshSession)"
    by (rule sessionSeq_inv[OF fresh_inv])
  then have "count_list (updatePrompts (sessionSeq getTool answered freshSession)) tool
               \<le> (if tool \<in> set (declinedUpdates (sessionSeq getTool answered freshSession))
                   then 1 else 0)"
    unfolding promptedOnce_def by blast
  then have c: "count_list (updatePrompts (sessionSeq getTool answered freshSession)) tool \<le> 1"
    by (simp split: if_splits)
  from d r c show ?thesis by (simp add: containsTool_def)
qed

theorem prompt_shown_once_witness:
  "knownTools ''gopls'' = Some goplsTool
   \<and> updatePrompts (promptForUpdatingTool knownTools True ''gopls'' freshSession) = [goplsTool]
   \<and> containsTool (declinedUpdates
         (updateSelected goplsTool (Some ''Update'')
            (promptForUpdatingTool knownTools True ''gopls'' freshSession))) goplsTool
   \<and> promptForUpdatingTool knownTools True ''gopls''
         (toolRun knownTools [PromptForUpdating ''gopls'' True]
            (updateSelected goplsTool (Some ''Update'')
               (promptForUpdatingTool knownTools True ''gopls'' freshSession)))
       = toolRun knownTools [PromptForUpdating ''gopls'' True]
            (updateSelected goplsTool (Some ''Update'')
               (promptForUpdatingTool knownTools True ''gopls'' freshSession))
   \<and> count_list (updatePrompts (sessionSeq knownTools
         [(''gopls'', True, Some ''Update''), (''gopls'', True, None)] freshSession)) goplsTool \<le> 1"
proof -
  have k: "knownTools ''gopls'' = Some goplsTool" by (simp add: knownTools_def)
  have p: "updatePrompts (promptForUpdatingTool knownTools True ''gopls'' freshSession) = [goplsTool]"
    by (simp add: promptForUpdatingTool_def k containsTool_def freshSession_def)
  from prompt_shown_once[of knownTools "''gopls''" goplsTool "Some ''Update''" True freshSession
      "[(''gopls'', True, Some ''Update''), (''gopls'', True, None)]"] k p
  show ?thesis by blast
qed

text \<open>
  C9 as stated fails: the tool is put on \<open>declinedUpdates\<close> only when a prompt is
  answered. Two calls for gopls made before the first prompt is answered show two
  prompts; \<open>formatDocument\<close> makes such calls itself, once for every run of a goreturns
  that does not know \<open>-srcdir\<close>.
\<close>

theorem prompt_shown_once_counterexample:
  "count_list (updatePrompts (toolRun knownTools
       [PromptForUpdating ''gopls'' True, PromptForUpdating ''gopls'' True] freshSession))
     goplsTool = 2
   \<and> fst (snd (formatDocument (\<lambda>t. t) \<lparr> formatTool = None, formatFlags = [] \<rparr>
         \<lparr> fileName = ''/src/a.go'', lines = [''package a''] \<rparr>
         [\<lparr> err = Some (Failed ''exit status 2''), stdout = [],
            stderr = ''flag provided but not defined: -srcdir'' \<rparr>,
          \<lparr> err = Some (Failed ''exit status 2''), stdout = [],
            stderr = ''flag provided but not defined: -srcdir'' \<rparr>,
          \<lparr> err = None, stdout = ''package a'', stderr = [] \<rparr>])) = 2"
  by (simp add: promptForUpdatingTool_def knownTools_def containsTool_def freshSession_def
      toolOrDefault_def startsWith_def Let_def)

section \<open>Properties of the version order and of sorting\<close>

lemma split_on_nonempty: "split_on c s \<noteq> []"
  by (induction s) (auto split: list.splits)

lemma compareMain_total: "compareMain a b \<le> 0 \<or> compareMain b a \<le> 0"
  by (auto simp: compareMain_def compare_num_def split: if_splits)

lemma compareMain_trans:
  "compareMain a b \<le> 0 \<Longrightarrow> compareMain b c \<le> 0 \<Longrightarrow> compareMain a c \<le> 0"
  by (auto simp: compareMain_def compare_num_def split: if_splits)

lemma compare_release:
  "prerelease a = [] \<Longrightarrow> prerelease b = [] \<Longrightarrow> semver_compare a b = compareMain a b"
  by (simp add: semver_compare_def comparePre_def)

lemma components_prerelease:
  "semver_of_components ma mi pa pre = Some v \<Longrightarrow> prerelease v = pre"
  by (auto simp: semver_of_components_def split: if_splits)

lemma coerce_release: "semver_coerce e = Some v \<Longrightarrow> prerelease v = []"
  by (auto simp: semver_coerce_def Let_def components_prerelease split: option.splits prod.splits)

lemma set_insert_by: "set (insert_by cmp x ys) = insert x (set ys)"
  by (induction ys) auto

lemma set_sort_by: "set (sort_by cmp xs) = set xs"
  by (induction xs) (auto simp: sort_by_def set_insert_by)

lemma sort_by_Nil: "sort_by cmp xs = [] \<longleftrightarrow> xs = []"
  using set_sort_by[of cmp xs] by (metis set_empty)

lemma insert_by_latest:
  assumes "list_all (\<lambda>v. prerelease v = []) (x # ys)" and "head_is_latest ys"
  shows "head_is_latest (insert_by rcompare x ys)"
proof (cases ys)
  case Nil
  then show ?thesis
    using compareMain_total[of x x] assms
    by (simp add: head_is_latest_def compare_release)
next
  case (Cons y ys')
  have px: "prerelease x = []" and py: "prerelease y = []"
    and pall: "\<forall>v\<in>set ys. prerelease v = []"
    using assms(1) Cons by (simp_all add: list_all_iff)
  have hy: "\<forall>v\<in>set ys. semver_compare v y \<le> 0"
    using assms(2) Cons by (simp add: head_is_latest_def list_all_iff)
  show ?thesis
  proof (cases "rcompare x y \<le> 0")
    case True
    then have yx: "compareMain y x \<le> 0" using px py by (simp add: rcompare_def compare_release)
    have "semver_compare v x \<le> 0" if "v \<in> set ys" for v
    proof -
      have "compareMain v y \<le> 0" using hy that pall py by (simp add: compare_release)
      then have "compareMain v x \<le> 0" using yx by (rule compareMain_trans)
      then show ?thesis using pall that px by (simp add: compare_release)
    qed
    moreover have "semver_compare x x \<le> 0"
      using compareMain_total[of x x] px by (simp add: compare_release)
    ultimately show ?thesis using True Cons by (simp add: head_is_latest_def list_all_iff)
  next
    case False
    then have "\<not> compareMain y x \<le> 0" using px py by (simp add: rcompare_def compare_release)
    then have "compareMain x y \<le> 0" using compareMain_total[of x y] by simp
    then have "semver_compare x y \<le> 0" using px py by (simp add: compare_release)
    then show ?thesis
      using False Cons hy by (simp add: head_is_latest_def list_all_iff set_insert_by)
  qed
qed

lemma sort_by_latest:
  "list_all (\<lambda>v. prerelease v = []) xs \<Longrightarrow> head_is_latest (sort_by rcompare xs)"
proof (induction xs)
  case Nil
  then show ?case by (simp add: sort_by_def head_is_latest_def)
next
  case (Cons x xs)
  have "list_all (\<lambda>v. prerelease v = []) (x # sort_by rcompare xs)"
    using Cons.prems by (simp add: list_all_iff set_sort_by)
  moreover have "head_is_latest (sort_by rcompare xs)" using Cons by simp
  ultimately have "head_is_latest (insert_by rcompare x (sort_by rcompare xs))"
    by (rule insert_by_latest)
  then show ?case by (simp add: sort_by_def)
qed

lemma sort_versions_all_coerced:
  assumes "list_all (\<lambda>v. v \<noteq> None) versions"
  shows "sort_versions versions = Inr (map Some (sort_by rcompare (map the versions)))"
proof (cases "length versions \<le> 1")
  case True
  then consider "versions = []" | x where "versions = [x]"
    by (cases versions) (auto simp: le_Suc_eq)
  then show ?thesis
  proof cases
    case 1
    then show ?thesis by (simp add: sort_versions_def sort_by_def)
  next
    case 2
    then show ?thesis using assms by (auto simp: sort_versions_def sort_by_def)
  qed
next
  case False
  have "\<not> list_ex (\<lambda>v. v = None) versions"
    using assms by (auto simp: list_all_iff list_ex_iff)
  then show ?thesis using False by (simp add: sort_versions_def)
qed

lemma parse_empty: "semver_parse [] = None"
  by (simp add: semver_parse_def trim_def cut_at_def semver_of_components_def numeric_id_def)

lemma parse_devel: "semver_parse ''(devel)'' = None"
  by (simp add: semver_parse_def trim_def cut_at_def is_space_def)

section \<open>Properties of the version gate\<close>

lemma gopls_example: "goplsVersion (Some (versionOutput ''v0.1.2'')) = Some ''v0.1.2''"
  by code_simp

lemma registry_example: "split_on (CHR 0x0A) (trim registryList) = [''v0.1.3'', ''v0.1.1'', ''v0.0.9'']"
  by code_simp

lemma should_example: "shouldUpdateLanguageServer (\<lambda>url. Inr registryList) goplsTool
         (Some (versionOutput ''v0.1.2'')) = Inr True"
  by code_simp

text \<open>
  C5. For gopls with an installed version that \<open>semver\<close> can read, a registry that
  answers, and entries that all coerce to a version: some coerced entry \<open>latest\<close> is at
  least every coerced entry (it is the head of the list sorted in descending order), and
  \<open>shouldUpdateLanguageServer\<close> answers whether the installed version is below it. The
  installed version \<open>v0.1.2\<close> against the list \<open>v0.1.3\<close>, \<open>v0.1.1\<close>, \<open>v0.0.9\<close> gives
  \<open>true\<close>; the installed version \<open>(devel)\<close> gives \<open>false\<close> whatever the registry answers.
\<close>

theorem shouldUpdate_iff_older_than_latest:
  "(name tool = ''gopls'' \<and> goplsVersion execStdout = Some usersVersion
      \<and> semver_parse usersVersion = Some installed
      \<and> webRequest (listURL tool) = Inr data
      \<and> list_all (\<lambda>e. semver_coerce e \<noteq> None) (split_on (CHR 0x0A) (trim data))
    \<longrightarrow> (\<exists>latest. Some latest \<in> set (map semver_coerce (split_on (CHR 0x0A) (trim data)))
           \<and> (\<forall>v. Some v \<in> set (map semver_coerce (split_on (CHR 0x0A) (trim data)))
                  \<longrightarrow> semver_compare v latest \<le> 0)
           \<and> shouldUpdateLanguageServer webRequest tool execStdout
               = Inr (semver_compare installed latest < 0)))
   \<and> (goplsVersion (Some (versionOutput ''v0.1.2'')) = Some ''v0.1.2''
      \<and> split_on (CHR 0x0A) (trim registryList) = [''v0.1.3'', ''v0.1.1'', ''v0.0.9'']
      \<and> shouldUpdateLanguageServer (\<lambda>url. Inr registryList) goplsTool
            (Some (versionOutput ''v0.1.2'')) = Inr True)
   \<and> (name tool = ''gopls'' \<and> goplsVersion execStdout = Some ''(devel)''
      \<longrightarrow> shouldUpdateLanguageServer webRequest tool execStdout = Inr False)"
proof (intro conjI impI)
  assume a: "name tool = ''gopls'' \<and> goplsVersion execStdout = Some usersVersion
      \<and> semver_parse usersVersion = Some installed
      \<and> webRequest (listURL tool) = Inr data
      \<and> list_all (\<lambda>e. semver_coerce e \<noteq> None) (split_on (CHR 0x0A) (trim data))"
  let ?es = "split_on (CHR 0x0A) (trim data)"
  let ?versions = "map semver_coerce ?es"
  let ?vs = "map the ?versions"
  have ne: "?versions \<noteq> []" by (simp add: split_on_nonempty)
  have allc: "list_all (\<lambda>v. v \<noteq> None) ?versions"
    using a by (simp add: list_all_iff)
  have vers: "?versions = map Some ?vs"
    using allc by (induction ?es) (auto simp: list_all_iff)
  have rel: "list_all (\<lambda>v. prerelease v = []) ?vs"
    using allc coerce_release by (fastforce simp: list_all_iff)
  have sv: "sort_versions ?versions = Inr (map Some (sort_by rcompare ?vs))"
    by (rule sort_versions_all_coerced[OF allc])
  have sne: "sort_by rcompare ?vs \<noteq> []" using ne by (simp add: sort_by_Nil)
  then obtain m ms where m: "sort_by rcompare ?vs = m # ms" by (cases "sort_by rcompare ?vs") auto
  have "head_is_latest (sort_by rcompare ?vs)" by (rule sort_by_latest[OF rel])
  then have mx: "\<forall>v\<in>set (sort_by rcompare ?vs). semver_compare v m \<le> 0"
    using m by (simp add: head_is_latest_def list_all_iff)
  have min: "m \<in> set ?vs" using m set_sort_by[of rcompare ?vs] by (metis list.set_intros(1))
  have setv: "set ?versions = Some ` set ?vs" using vers by (metis set_map)
  have 1: "Some m \<in> set ?versions" using min setv by blast
  have 2: "\<forall>v. Some v \<in> set ?versions \<longrightarrow> semver_compare v m \<le> 0"
    using mx setv set_sort_by[of rcompare ?vs] by blast
  have u1: "usersVersion \<noteq> []" using a parse_empty by auto
  have u2: "usersVersion \<noteq> ''(devel)''" using a parse_devel by auto
  have 3: "shouldUpdateLanguageServer webRequest tool execStdout
               = Inr (semver_compare installed m < 0)"
    using a u1 u2 ne sv m
    by (simp add: shouldUpdateLanguageServer_def Let_def semver_lt_def del: map_map)
  from 1 2 3 show "\<exists>latest. Some latest \<in> set ?versions
           \<and> (\<forall>v. Some v \<in> set ?versions \<longrightarrow> semver_compare v latest \<le> 0)
           \<and> shouldUpdateLanguageServer webRequest tool execStdout
               = Inr (semver_compare installed latest < 0)" by blast
next
  show "goplsVersion (Some (versionOutput ''v0.1.2'')) = Some ''v0.1.2''" by (rule gopls_example)
next
  show "split_on (CHR 0x0A) (trim registryList) = [''v0.1.3'', ''v0.1.1'', ''v0.0.9'']"
    by (rule registry_example)
next
  show "shouldUpdateLanguageServer (\<lambda>url. Inr registryList) goplsTool
            (Some (versionOutput ''v0.1.2'')) = Inr True" by (rule should_example)
next
  assume "name tool = ''gopls'' \<and> goplsVersion execStdout = Some ''(devel)''"
  then show "shouldUpdateLanguageServer webRequest tool execStdout = Inr False"
    by (simp add: shouldUpdateLanguageServer_def)
qed


text \<open>The hypotheses of C5 hold for the versions of its example.\<close>

theorem shouldUpdate_iff_older_than_latest_witness:
  "name goplsTool = ''gopls''
   \<and> goplsVersion (Some (versionOutput ''v0.1.2'')) = Some ''v0.1.2''
   \<and> semver_parse ''v0.1.2'' = Some \<lparr> major = 0, minor = 1, patch = 2, prerelease = [] \<rparr>
   \<and> list_all (\<lambda>e. semver_coerce e \<noteq> None) (split_on (CHR 0x0A) (trim registryList))
   \<and> (\<exists>latest. Some latest \<in> set (map semver_coerce (split_on (CHR 0x0A) (trim registryList)))
         \<and> shouldUpdateLanguageServer (\<lambda>url. Inr registryList) goplsTool
              (Some (versionOutput ''v0.1.2''))
             = Inr (semver_compare \<lparr> major = 0, minor = 1, patch = 2, prerelease = [] \<rparr> latest < 0))
   \<and> goplsVersion (Some (versionOutput ''(devel)'')) = Some ''(devel)''
   \<and> shouldUpdateLanguageServer (\<lambda>url. Inl (RequestError ''offline'')) goplsTool
         (Some (versionOutput ''(devel)'')) = Inr False"
proof -
  have n: "name goplsTool = ''gopls''" by (simp add: goplsTool_def)
  have g: "goplsVersion (Some (versionOutput ''v0.1.2'')) = Some ''v0.1.2''" by code_simp
  have p: "semver_parse ''v0.1.2'' = Some \<lparr> major = 0, minor = 1, patch = 2, prerelease = [] \<rparr>"
    by code_simp
  have c: "list_all (\<lambda>e. semver_coerce e \<noteq> None) (split_on (CHR 0x0A) (trim registryList))"
    by code_simp
  have d: "goplsVersion (Some (versionOutput ''(devel)'')) = Some ''(devel)''" by code_simp
  from shouldUpdate_iff_older_than_latest[of goplsTool "Some (versionOutput ''v0.1.2'')"
      "''v0.1.2''" "\<lparr> major = 0, minor = 1, patch = 2, prerelease = [] \<rparr>"
      "\<lambda>url. Inr registryList" registryList] n g p c
  have e: "\<exists>latest. Some latest \<in> set (map semver_coerce (split_on (CHR 0x0A) (trim registryList)))
         \<and> shouldUpdateLanguageServer (\<lambda>url. Inr registryList) goplsTool
              (Some (versionOutput ''v0.1.2''))
             = Inr (semver_compare \<lparr> major = 0, minor = 1, patch = 2, prerelease = [] \<rparr> latest < 0)"
    by blast
  from shouldUpdate_iff_older_than_latest[of goplsTool "Some (versionOutput ''(devel)'')"
      _ _ "\<lambda>url. Inl (RequestError ''offline'')"] n d
  have f: "shouldUpdateLanguageServer (\<lambda>url. Inl (RequestError ''offline'')) goplsTool
         (Some (versionOutput ''(devel)'')) = Inr False"
    by blast
  from n g p c e f d show ?thesis by blast
qed

text \<open>
  C6, amended. When \<open>gopls version\<close> prints exactly one line, \<open>goplsVersion\<close> answers
  \<open>null\<close> and \<open>shouldUpdateLanguageServer\<close> answers \<open>true\<close> for gopls: the user is
  prompted to update.
\<close>

theorem one_line_output_recommends_update:
  "name tool = ''gopls'' \<Longrightarrow> length (split_on (CHR 0x0A) (trim output)) = 1 \<Longrightarrow>
     goplsVersion (Some output) = None
     \<and> shouldUpdateLanguageServer webRequest tool (Some output) = Inr True"
  by (simp add: goplsVersion_def shouldUpdateLanguageServer_def Let_def)

text \<open>The output of a gopls built in GOPATH mode is one line; the theorem applies to it.\<close>

theorem one_line_output_recommends_update_witness:
  "name goplsTool = ''gopls''
   \<and> length (split_on (CHR 0x0A) (trim ''golang.org/x/tools/gopls unknown'')) = 1
   \<and> goplsVersion (Some ''golang.org/x/tools/gopls unknown'') = None
   \<and> shouldUpdateLanguageServer (\<lambda>url. Inr registryList) goplsTool
         (Some ''golang.org/x/tools/gopls unknown'') = Inr True"
proof -
  have n: "name goplsTool = ''gopls''" by (simp add: goplsTool_def)
  have l: "length (split_on (CHR 0x0A) (trim ''golang.org/x/tools/gopls unknown'')) = 1"
    by (simp add: trim_def is_space_def)
  from one_line_output_recommends_update[OF n l, of "\<lambda>url. Inr registryList"] n l
  show ?thesis by simp
qed

text \<open>
  C6 as stated fails: for a one-line output \<open>shouldUpdateLanguageServer\<close> answers \<open>true\<close>,
  not \<open>false\<close> or \<open>null\<close>.
\<close>

theorem one_line_output_counterexample:
  "split_on (CHR 0x0A) (trim ''golang.org/x/tools/gopls unknown'')
     = [''golang.org/x/tools/gopls unknown'']
   \<and> shouldUpdateLanguageServer (\<lambda>url. Inr registryList) goplsTool
         (Some ''golang.org/x/tools/gopls unknown'') = Inr True"
  by (simp add: trim_def is_space_def goplsVersion_def shouldUpdateLanguageServer_def goplsTool_def Let_def)

section \<open>Properties of the checks on save\<close>








section \<open>Properties of linting\<close>

text \<open>
  C7, amended. When a second lint request is issued while the first is still running,
  the second cancels the token source before it starts its own lint process (its
  \<open>runTool\<close> call is made after the cancellation, and after the first request's call).
  \<open>goLint\<close> discards nothing: when the two \<open>runTool\<close> promises resolve, in either order,
  each request's promise resolves with the result of its own run, the first request's
  as well as the second's.
\<close>

theorem lint_second_request:
  "running (goLint host1 config1 ws1 m)
   \<and> (\<exists>run1 run2.
         calls (goLint host1 config1 ws1 m) = calls m @ (if running m then [CancelToken] else []) @ [RunTool run1]
         \<and> calls (goLint host2 config2 ws2 (goLint host1 config1 ws1 m))
             = calls (goLint host1 config1 ws1 m) @ [CancelToken, RunTool run2]
         \<and> runArgs run1 = lintArgs host1 config1 ws1
         \<and> runArgs run2 = lintArgs host2 config2 ws2)
   \<and> delivered (lintResolved j r2 (lintResolved i r1
         (goLint host2 config2 ws2 (goLint host1 config1 ws1 m))))
       = delivered m @ [(i, r1), (j, r2)]
   \<and> delivered (lintResolved i r1 (lintResolved j r2
         (goLint host2 config2 ws2 (goLint host1 config1 ws1 m))))
       = delivered m @ [(j, r2), (i, r1)]"
  by (simp add: goLint_def lintResolved_def Let_def lintRunOf_def)

text \<open>
  C7 as stated fails: two overlapping requests, the first run resolving with a warning
  and the second with none. The first request's result is delivered to its caller, not
  discarded.
\<close>

theorem lint_second_request_counterexample:
  "delivered (lintResolved 1 [] (lintResolved 0 [lintWarning]
      (goLint golintHost golintConfig False (goLint golintHost golintConfig False lintModuleInit))))
     = [(0, [lintWarning]), (1, [])]"
  by (simp add: goLint_def lintResolved_def Let_def lintModuleInit_def)

text \<open>The theorem for two requests of golint from the initial state of the module.\<close>

theorem lint_second_request_witness:
  "calls (goLint golintHost golintConfig False
            (goLint golintHost golintConfig False (lintModuleInit :: nat lintModule)))
     = [RunTool (lintRunOf golintHost golintConfig False False), CancelToken,
        RunTool (lintRunOf golintHost golintConfig False True)]
   \<and> delivered (lintResolved 1 (8::nat) (lintResolved 0 7
         (goLint golintHost golintConfig False
            (goLint golintHost golintConfig False lintModuleInit))))
       = [(0, 7), (1, 8)]"
proof -
  have c: "calls (goLint golintHost golintConfig False
            (goLint golintHost golintConfig False (lintModuleInit :: nat lintModule)))
     = [RunTool (lintRunOf golintHost golintConfig False False), CancelToken,
        RunTool (lintRunOf golintHost golintConfig False True)]"
    by (simp add: goLint_def Let_def lintModuleInit_def)
  have d: "delivered (lintModuleInit :: nat lintModule) = []" by (simp add: lintModuleInit_def)
  from lint_second_request[of golintHost golintConfig False "lintModuleInit :: nat lintModule"
      golintHost golintConfig False 1 8 0 7] c d
  show ?thesis by simp
qed

section \<open>Properties of the registration of language features\<close>

lemma fallbackHandles_push:
  "fallbackHandles (push d ed) f = fallbackHandles ed f + (if d = FallbackProvider f then 1 else 0)"
  by (simp add: fallbackHandles_def push_def)

lemma fallbackHandles_register:
  "fallbackHandles (registerFallback g ed) f = fallbackHandles ed f + (if g = f then 1 else 0)"
  by (simp add: registerFallback_def fallbackHandles_push)

lemma fallbackHandles_fallbackIf:
  "fallbackHandles (fallbackIf c g ed) f = fallbackHandles ed f + (if c \<and> g = f then 1 else 0)"
  by (simp add: fallbackIf_def fallbackHandles_register)

lemma errorMessages_fallbackIf: "errorMessages (fallbackIf c g ed) = errorMessages ed"
  by (simp add: fallbackIf_def registerFallback_def push_def)

lemma onReady_handles:
  "fallbackHandles (onReady fs (Some caps) ed) f
     = fallbackHandles ed f + (if hasFallback f \<and> \<not> (toggle fs f \<and> advertises caps f) then 1 else 0)"
  by (cases f) (simp_all add: onReady_def fallbackHandles_fallbackIf hasFallback_def)

lemma onReady_messages: "errorMessages (onReady fs (Some caps) ed) = errorMessages ed"
  by (simp add: onReady_def errorMessages_fallbackIf)

lemma usual_handles:
  "fallbackHandles (registerUsualProviders ed) f = fallbackHandles ed f + (if hasFallback f then 1 else 0)"
  by (cases f) (simp_all add: registerUsualProviders_def fallbackHandles_register fallbackHandles_push hasFallback_def)

lemma register_disabled_handles:
  "\<not> enabled config \<Longrightarrow>
   fallbackHandles (registerLanguageFeatures config toolName updateCheck ed) f
     = fallbackHandles ed f + (if hasFallback f then 1 else 0)"
  by (simp add: registerLanguageFeatures_def usual_handles fallbackHandles_push)

lemma middleware_off: "\<not> toggle fs f \<Longrightarrow> middleware fs f next = noop f"
  by (cases f) simp_all

lemma middleware_on: "toggle fs f \<Longrightarrow> middleware fs f next = Forwarded next"
  by (cases f) simp_all

lemma emptyEditor_handles: "fallbackHandles emptyEditor f = 0"
  by (simp add: fallbackHandles_def emptyEditor_def)

text \<open>
  C1, amended. When the server reports a capability object, for every feature whose
  toggle is on and for which the extension has a provider of its own (all but
  diagnostics and document links): if the capabilities include the feature, the pass of
  the \<open>onReady\<close> handler registers no fallback provider for it; if they do not, it
  registers exactly one. For diagnostics and document links it registers none. When the
  language server is disabled in the configuration, \<open>registerLanguageFeatures\<close> registers
  exactly one fallback provider for every feature that has one.
\<close>

theorem fallback_registration:
  "(toggle fs f \<longrightarrow>
     (hasFallback f \<longrightarrow>
        (advertises caps f \<longrightarrow>
           fallbackHandles (onReady fs (Some caps) ed) f = fallbackHandles ed f)
        \<and> (\<not> advertises caps f \<longrightarrow>
           fallbackHandles (onReady fs (Some caps) ed) f = fallbackHandles ed f + 1))
     \<and> (\<not> hasFallback f \<longrightarrow>
           fallbackHandles (onReady fs (Some caps) ed) f = fallbackHandles ed f))
   \<and> (\<not> enabled config \<longrightarrow>
         fallbackHandles (registerLanguageFeatures config toolName updateCheck ed) f
           = fallbackHandles ed f + (if hasFallback f then 1 else 0))"
  by (simp add: onReady_handles register_disabled_handles)

text \<open>
  Rename is on and the server lacks it: one handle. Hover is on and the server has it:
  none. Document links are on and no fallback exists: none.
\<close>

theorem fallback_registration_witness:
  "toggle allFeatures Rename \<and> hasFallback Rename
   \<and> \<not> advertises (fullCapabilities\<lparr>renameProvider := False\<rparr>) Rename
   \<and> fallbackHandles (onReady allFeatures (Some (fullCapabilities\<lparr>renameProvider := False\<rparr>))
         emptyEditor) Rename = 1
   \<and> advertises (fullCapabilities\<lparr>renameProvider := False\<rparr>) Hover
   \<and> fallbackHandles (onReady allFeatures (Some (fullCapabilities\<lparr>renameProvider := False\<rparr>))
         emptyEditor) Hover = 0
   \<and> fallbackHandles (onReady allFeatures (Some (fullCapabilities\<lparr>renameProvider := False\<rparr>))
         emptyEditor) DocumentLink = 0
   \<and> fallbackHandles (registerLanguageFeatures (goplsConfig\<lparr>enabled := False\<rparr>) ''gopls''
         (Inr False) emptyEditor) Rename = 1"
proof -
  have d: "\<not> enabled (goplsConfig\<lparr>enabled := False\<rparr>)" by simp
  let ?caps = "fullCapabilities\<lparr>renameProvider := False\<rparr>"
  have t: "toggle allFeatures Rename" "toggle allFeatures Hover" "toggle allFeatures DocumentLink"
    by (simp_all add: allFeatures_def)
  have f: "hasFallback Rename" "hasFallback Hover" "\<not> hasFallback DocumentLink"
    by (simp_all add: hasFallback_def)
  have a: "\<not> advertises ?caps Rename" "advertises ?caps Hover"
    by (simp_all add: fullCapabilities_def)
  from fallback_registration[of allFeatures Rename ?caps emptyEditor
      "goplsConfig\<lparr>enabled := False\<rparr>" "''gopls''" "Inr False"]
    fallback_registration[of allFeatures Hover ?caps emptyEditor]
    fallback_registration[of allFeatures DocumentLink ?caps emptyEditor]
    t f a d emptyEditor_handles
  show ?thesis by simp
qed

text \<open>
  C1 as stated fails: with every toggle on and a server that advertises nothing, document
  links are enabled and not among the capabilities, and the pass registers no fallback
  provider for them.
\<close>

theorem fallback_registration_counterexample:
  "toggle allFeatures DocumentLink \<and> \<not> advertises emptyCapabilities DocumentLink
   \<and> fallbackHandles (onReady allFeatures (Some emptyCapabilities) emptyEditor) DocumentLink = 0"
  by (simp add: onReady_handles emptyEditor_handles hasFallback_def allFeatures_def
      emptyCapabilities_def)

text \<open>
  C2, amended. For a feature whose toggle is off the middleware answers the request
  itself, with \<open>[]\<close> or \<open>null\<close>, and never forwards it to the server; when the server
  reports a capability object, the pass of the \<open>onReady\<close> handler registers exactly one
  fallback provider for it if the extension has one (none for diagnostics and document
  links). With the toggle on the middleware forwards the request. For the features that
  have a fallback provider, the pass registers it if and only if the server does not
  answer (toggle off, or the feature not among the capabilities): never both, never
  neither.
\<close>

theorem disabled_feature:
  "(\<not> toggle fs f \<longrightarrow>
      middleware fs f next = noop f
      \<and> fallbackHandles (onReady fs (Some caps) ed) f
          = fallbackHandles ed f + (if hasFallback f then 1 else 0))
   \<and> (toggle fs f \<longrightarrow> middleware fs f next = Forwarded next)
   \<and> (hasFallback f \<longrightarrow>
        ((toggle fs f \<and> advertises caps f)
           \<longleftrightarrow> fallbackHandles (onReady fs (Some caps) ed) f = fallbackHandles ed f)
        \<and> (\<not> (toggle fs f \<and> advertises caps f)
           \<longleftrightarrow> fallbackHandles (onReady fs (Some caps) ed) f = fallbackHandles ed f + 1))"
  by (simp add: onReady_handles middleware_off middleware_on)

text \<open>With every toggle off and a server that offers everything, rename is answered by its fallback.\<close>

theorem disabled_feature_witness:
  "\<not> toggle noFeatures Rename \<and> hasFallback Rename
   \<and> middleware noFeatures Rename (0::nat) = Null
   \<and> fallbackHandles (onReady noFeatures (Some fullCapabilities) emptyEditor) Rename = 1
   \<and> toggle allFeatures Rename
   \<and> middleware allFeatures Rename (0::nat) = Forwarded 0
   \<and> fallbackHandles (onReady allFeatures (Some fullCapabilities) emptyEditor) Rename = 0"
proof -
  have t: "\<not> toggle noFeatures Rename" "toggle allFeatures Rename"
    by (simp_all add: noFeatures_def allFeatures_def)
  have f: "hasFallback Rename" by (simp add: hasFallback_def)
  have a: "advertises fullCapabilities Rename" by (simp add: fullCapabilities_def)
  from disabled_feature[of noFeatures Rename "0::nat" fullCapabilities emptyEditor]
    disabled_feature[of allFeatures Rename "0::nat" fullCapabilities emptyEditor]
    t f a emptyEditor_handles
  show ?thesis by simp
qed

text \<open>
  C2 as stated fails: with the rename toggle off and a server that offers rename, the
  pass registers the fallback rename provider; a provider is registered for the
  disabled feature.
\<close>

theorem disabled_feature_counterexample:
  "\<not> toggle noFeatures Rename
   \<and> fallbackHandles (onReady noFeatures (Some fullCapabilities) emptyEditor) Rename = 1"
  by (simp add: onReady_handles emptyEditor_handles hasFallback_def noFeatures_def)

text \<open>
  C3, amended. When the server is ready and reports no capability object, the error
  message is shown. When it reports a capability object that offers nothing, no message
  is shown and the pass registers exactly one fallback provider for each feature that
  has one, and none for diagnostics and document links.
\<close>

theorem ready_without_capabilities:
  "errorMessages (onReady fs None ed)
     = errorMessages ed @ [''The language server is not able to serve any features at the moment.'']
   \<and> errorMessages (onReady fs (Some emptyCapabilities) ed) = errorMessages ed
   \<and> fallbackHandles (onReady fs (Some emptyCapabilities) ed) f
       = fallbackHandles ed f + (if hasFallback f then 1 else 0)"
proof -
  have "advertises emptyCapabilities f = False"
    by (cases f) (simp_all add: emptyCapabilities_def)
  then show ?thesis
    by (simp add: onReady_messages onReady_handles) (simp add: onReady_def)
qed

text \<open>The theorem at the empty context, for hover.\<close>

theorem ready_without_capabilities_witness:
  "errorMessages (onReady allFeatures None emptyEditor)
     = [''The language server is not able to serve any features at the moment.'']
   \<and> errorMessages (onReady allFeatures (Some emptyCapabilities) emptyEditor) = []
   \<and> fallbackHandles (onReady allFeatures (Some emptyCapabilities) emptyEditor) Hover = 1"
proof -
  have e: "errorMessages emptyEditor = []" by (simp add: emptyEditor_def)
  have f: "hasFallback Hover" by (simp add: hasFallback_def)
  from ready_without_capabilities[of allFeatures emptyEditor Hover] e f emptyEditor_handles
  show ?thesis by simp
qed

text \<open>
  C3 as stated fails: without a capability object the handler returns after the
  message and no fallback provider is registered, for completion or any other feature;
  with a capability object that offers nothing, no error message is shown.
\<close>

theorem ready_without_capabilities_counterexample:
  "fallbackHandles (onReady allFeatures None emptyEditor) Completion = 0
   \<and> subscriptions (onReady allFeatures None emptyEditor) = []
   \<and> errorMessages (onReady allFeatures (Some emptyCapabilities) emptyEditor) = []"
  by (simp add: onReady_messages) (simp add: onReady_def fallbackHandles_def emptyEditor_def)


section \<open>Properties of the restart command\<close>

lemma restart_overlapped_state:
  "restartRun [Begin, Begin, Resume, Resume] ed
     = ed\<lparr> clientStops := clientStops ed + 2,
           disposed := disposed ed
              @ (case languageServerDisposable ed of None \<Rightarrow> [] | Some h \<Rightarrow> [h])
              @ [clientStarts ed],
           languageServerDisposable := Some (clientStarts ed + 1),
           clientStarts := clientStarts ed + 2,
           subscriptions := subscriptions ed
              @ [LanguageServer (clientStarts ed), LanguageServer (clientStarts ed + 1)] \<rparr>"
  by (simp add: restartBegin_def restartResume_def clientStart_def disposeServer_def push_def
      split: option.splits)

lemma filter_single:
  assumes "filter P xs = [h]"
  shows "filter (\<lambda>x. P x \<and> x \<noteq> h) xs = []"
proof -
  have "filter (\<lambda>x. P x \<and> x \<noteq> h) xs = filter (\<lambda>x. x \<noteq> h) (filter P xs)"
    by (simp add: conj_commute)
  then show ?thesis using assms by simp
qed

lemma live_after_overlap:
  assumes h: "languageServerDisposable ed = Some h"
    and l: "liveHandles ed = [h]"
    and w: "list_all (\<lambda>d. d < clientStarts ed) (disposed ed)"
  shows "liveHandles (restartRun [Begin, Begin, Resume, Resume] ed) = [clientStarts ed + 1]"
proof -
  let ?n = "clientStarts ed"
  have lt: "\<forall>x \<in> set [0..<?n]. x \<noteq> ?n" by simp
  have f0: "filter (\<lambda>x. x \<notin> set (disposed ed) \<and> x \<noteq> h) [0..<?n] = []"
    using l unfolding liveHandles_def by (rule filter_single)
  have f1: "filter (\<lambda>x. x \<noteq> h \<and> x \<noteq> ?n \<and> x \<notin> set (disposed ed)) [0..<?n]
            = filter (\<lambda>x. x \<notin> set (disposed ed) \<and> x \<noteq> h) [0..<?n]"
    by (rule filter_cong) auto
  have nd: "?n \<notin> set (disposed ed)" "Suc ?n \<notin> set (disposed ed)"
    using w by (auto simp: list_all_iff)
  have hl: "h \<in> set (liveHandles ed)" using l by simp
  then have hn: "h < ?n" unfolding liveHandles_def by simp
  have up: "[0..<Suc (Suc ?n)] = [0..<?n] @ [?n, Suc ?n]" by simp
  have "filter (\<lambda>x. x \<noteq> h \<and> x \<noteq> ?n \<and> x \<notin> set (disposed ed)) [0..<Suc (Suc ?n)] = [Suc ?n]"
    unfolding up filter_append f1 f0 using nd hn by simp
  then show ?thesis
    unfolding restart_overlapped_state liveHandles_def
    using h by simp
qed

text \<open>
  C4, amended. The handler keeps no record of a restart in progress. When a second
  invocation of the restart command is issued while the first awaits \<open>c.stop()\<close>, each
  of the two stops the client, disposes the current server disposable and starts the
  client: the client is started twice. After both have resumed, the variable holds the
  disposable of the last start; if before the two invocations the current disposable
  was the only one not disposed, that last one is the only one not disposed afterwards.
\<close>

theorem restart_overlapping:
  "clientStarts (restartRun [Begin, Begin, Resume, Resume] ed) = clientStarts ed + 2
   \<and> clientStops (restartRun [Begin, Begin, Resume, Resume] ed) = clientStops ed + 2
   \<and> languageServerDisposable (restartRun [Begin, Begin, Resume, Resume] ed)
       = Some (clientStarts ed + 1)
   \<and> (languageServerDisposable ed = Some h \<and> liveHandles ed = [h]
        \<and> list_all (\<lambda>d. d < clientStarts ed) (disposed ed)
      \<longrightarrow> liveHandles (restartRun [Begin, Begin, Resume, Resume] ed) = [clientStarts ed + 1])"
  using live_after_overlap[of ed h] unfolding restart_overlapped_state by simp

lemma activated:
  "registerLanguageFeatures goplsConfig ''gopls'' (Inr False) emptyEditor
     = \<lparr> subscriptions = [ConfigurationWatcher, LanguageServer 0, RestartCommand],
         errorMessages = [], updateRequests = [], clientStarts = 1, clientStops = 0,
         languageServerDisposable = Some 0, disposed = [] \<rparr>"
  by (simp add: registerLanguageFeatures_def goplsConfig_def allFeatures_def emptyEditor_def
      push_def clientStart_def)

text \<open>The theorem after activation with gopls: disposable 0 is live before, disposable 2 after.\<close>

theorem restart_overlapping_witness:
  "languageServerDisposable (registerLanguageFeatures goplsConfig ''gopls'' (Inr False) emptyEditor)
     = Some 0
   \<and> liveHandles (registerLanguageFeatures goplsConfig ''gopls'' (Inr False) emptyEditor) = [0]
   \<and> liveHandles (restartRun [Begin, Begin, Resume, Resume]
        (registerLanguageFeatures goplsConfig ''gopls'' (Inr False) emptyEditor)) = [2]"
proof -
  let ?ed = "registerLanguageFeatures goplsConfig ''gopls'' (Inr False) emptyEditor"
  have a: "languageServerDisposable ?ed = Some 0" by (simp add: activated)
  have b: "liveHandles ?ed = [0]" by (simp add: activated liveHandles_def)
  have c: "list_all (\<lambda>d. d < clientStarts ?ed) (disposed ?ed)" by (simp add: activated)
  have d: "clientStarts ?ed + 1 = 2" by (simp add: activated)
  from restart_overlapping[of ?ed 0] a b c d show ?thesis by simp
qed

text \<open>
  C4 as stated fails: after activation the client has been started once; two overlapping
  restarts start it twice more, one start for each invocation, where a second invocation
  that awaited the first would add a single start.
\<close>

theorem restart_overlapping_counterexample:
  "clientStarts (registerLanguageFeatures goplsConfig ''gopls'' (Inr False) emptyEditor) = 1
   \<and> clientStarts (restartRun [Begin, Begin, Resume, Resume]
        (registerLanguageFeatures goplsConfig ''gopls'' (Inr False) emptyEditor)) = 3
   \<and> subscriptions (restartRun [Begin, Begin, Resume, Resume]
        (registerLanguageFeatures goplsConfig ''gopls'' (Inr False) emptyEditor))
       = [ConfigurationWatcher, LanguageServer 0, RestartCommand,
          LanguageServer 1, LanguageServer 2]"
  unfolding restart_overlapped_state by (simp add: activated)

end
